theory Spec2Isabelle
  imports Complex_Main
begin

section \<open>Data model (types.ts)\<close>

text \<open>
  The interface \<open>RoomState\<close>. A \<open>number\<close> that is stored or handed over (a field of
  the room state, a clock reading, a player position) is given by a real; where the
  code computes with numbers, the model computes in binary64 (section on JavaScript
  numbers below).
\<close>

record RoomState =
  roomId :: string
  hostId :: string
  videoId :: string
  isPlaying :: bool
  timestamp :: real
  lastUpdated :: real

text \<open>
  \<open>Partial<RoomState>\<close>: the same fields, each one present (\<open>Some\<close>) or absent
  (\<open>None\<close>) in the object literal the caller passes.
\<close>

record RoomStateUpdates =
  upd_roomId :: "string option"
  upd_hostId :: "string option"
  upd_videoId :: "string option"
  upd_isPlaying :: "bool option"
  upd_timestamp :: "real option"
  upd_lastUpdated :: "real option"

definition no_updates :: RoomStateUpdates where
  "no_updates = \<lparr>upd_roomId = None, upd_hostId = None, upd_videoId = None,
     upd_isPlaying = None, upd_timestamp = None, upd_lastUpdated = None\<rparr>"

section \<open>JavaScript numbers\<close>

text \<open>
  A \<open>number\<close> is an IEEE 754 binary64 value: a finite value, an infinity, or NaN. The
  two zeros are one value here; the code modelled below never divides by a computed
  value and never looks at the sign of a zero.
\<close>

datatype number = Finite real | PosInfinity | NegInfinity | NaN

text \<open>
  The binary exponent of a positive real, as binary64 sees it: the greatest \<open>e\<close> from
  -1022 to 1023 with \<open>2^e \<le> a\<close>, and -1022 below that (the subnormal range). The search
  goes up from 0 for \<open>a \<ge> 1\<close> and down from -1 otherwise.
\<close>

function exponent_up :: "int \<Rightarrow> real \<Rightarrow> int" where
  "exponent_up e a = (if e < 1023 \<and> 2 powi (e + 1) \<le> a then exponent_up (e + 1) a else e)"
  by pat_completeness auto
termination
proof (relation "measure (\<lambda>(e, a). nat (1023 - e))")
  show "wf (measure (\<lambda>(e, a). nat (1023 - e)))" by simp
next
  fix e :: int and a :: real
  assume "e < 1023 \<and> 2 powi (e + 1) \<le> a"
  then have "nat (1023 - (e + 1)) < nat (1023 - e)" by linarith
  then show "((e + 1, a), e, a) \<in> measure (\<lambda>(e, a). nat (1023 - e))" by simp
qed

function exponent_down :: "int \<Rightarrow> real \<Rightarrow> int" where
  "exponent_down e a = (if - 1022 < e \<and> a < 2 powi e then exponent_down (e - 1) a else e)"
  by pat_completeness auto
termination
proof (relation "measure (\<lambda>(e, a). nat (e + 1022))")
  show "wf (measure (\<lambda>(e, a). nat (e + 1022)))" by simp
next
  fix e :: int and a :: real
  assume "- 1022 < e \<and> a < 2 powi e"
  then have "nat (e - 1 + 1022) < nat (e + 1022)" by linarith
  then show "((e - 1, a), e, a) \<in> measure (\<lambda>(e, a). nat (e + 1022))" by simp
qed

declare exponent_up.simps [simp del] exponent_down.simps [simp del]

definition exponent :: "real \<Rightarrow> int" where
  "exponent a = (if 1 \<le> a then exponent_up 0 a else exponent_down (- 1) a)"

text \<open>Rounding to the nearest integer, ties to the even one.\<close>

definition round_half_even :: "real \<Rightarrow> int" where
  "round_half_even m =
     (let f = \<lfloor>m\<rfloor>; r = m - of_int f
      in if r < 1 / 2 then f else if 1 / 2 < r then f + 1 else if even f then f else f + 1)"

text \<open>
  The binary64 value of a real: the nearest multiple of \<open>2^(e - 52)\<close>, ties to even,
  and an infinity when that is \<open>2^1024\<close> or more. This is what a numeric literal
  denotes, what \<open>JSON.parse\<close> yields for a numeral, and how the result of an
  arithmetic operation on finite operands is rounded. On a real that is a binary64
  value already it changes nothing.
\<close>

definition to_double :: "real \<Rightarrow> number" where
  "to_double x =
     (if x = 0 then Finite 0
      else
        (let a = \<bar>x\<bar>;
             q = 2 powi (exponent a - 52);
             y = of_int (round_half_even (a / q)) * q
         in if 2 powi 1024 \<le> y then (if 0 < x then PosInfinity else NegInfinity)
            else Finite (if 0 < x then y else - y)))"

text \<open>The operators \<open>-x\<close>, \<open>x + y\<close>, \<open>x - y\<close>, \<open>x / y\<close>, \<open>Math.abs(x)\<close> and \<open>x > y\<close>.\<close>

fun js_neg :: "number \<Rightarrow> number" where
  "js_neg (Finite a) = Finite (- a)"
| "js_neg PosInfinity = NegInfinity"
| "js_neg NegInfinity = PosInfinity"
| "js_neg NaN = NaN"

fun js_add :: "number \<Rightarrow> number \<Rightarrow> number" where
  "js_add (Finite a) (Finite b) = to_double (a + b)"
| "js_add NaN y = NaN"
| "js_add x NaN = NaN"
| "js_add PosInfinity NegInfinity = NaN"
| "js_add NegInfinity PosInfinity = NaN"
| "js_add PosInfinity y = PosInfinity"
| "js_add x PosInfinity = PosInfinity"
| "js_add NegInfinity y = NegInfinity"
| "js_add x NegInfinity = NegInfinity"

definition js_sub :: "number \<Rightarrow> number \<Rightarrow> number" where
  "js_sub x y = js_add x (js_neg y)"

text \<open>A zero divisor counts as \<open>+0\<close>; the page divides by the literal 1000 only.\<close>

fun js_div :: "number \<Rightarrow> number \<Rightarrow> number" where
  "js_div NaN y = NaN"
| "js_div x NaN = NaN"
| "js_div (Finite a) (Finite b) =
     (if b = 0 then (if a = 0 then NaN else if 0 < a then PosInfinity else NegInfinity)
      else to_double (a / b))"
| "js_div (Finite a) y = Finite 0"
| "js_div x (Finite b) = (if 0 \<le> b then x else js_neg x)"
| "js_div x y = NaN"

fun js_abs :: "number \<Rightarrow> number" where
  "js_abs (Finite a) = Finite \<bar>a\<bar>"
| "js_abs PosInfinity = PosInfinity"
| "js_abs NegInfinity = PosInfinity"
| "js_abs NaN = NaN"

fun js_gt :: "number \<Rightarrow> number \<Rightarrow> bool" where
  "js_gt NaN y = False"
| "js_gt x NaN = False"
| "js_gt (Finite a) (Finite b) = (b < a)"
| "js_gt PosInfinity PosInfinity = False"
| "js_gt PosInfinity y = True"
| "js_gt x PosInfinity = False"
| "js_gt NegInfinity y = False"
| "js_gt x NegInfinity = True"

section \<open>The room service (services/roomService.ts)\<close>

text \<open>
  The two browser stores. \<open>localStorage\<close> holds, under the key of a room, the
  \<open>JSON.stringify\<close> text of a \<open>RoomState\<close>; the model keeps the record itself, taking
  \<open>JSON.parse\<close> after \<open>JSON.stringify\<close> as the identity on room states.
  \<open>sessionStorage\<close> maps keys to strings.
\<close>

record browser =
  localStorage :: "string \<rightharpoonup> RoomState"
  sessionStorage :: "string \<rightharpoonup> string"

definition STORAGE_PREFIX :: string where
  "STORAGE_PREFIX = ''syncstream_room_''"

definition getRoomState :: "browser \<Rightarrow> string \<Rightarrow> RoomState option" where
  "getRoomState b rid = localStorage b (STORAGE_PREFIX @ rid)"

text \<open>
  \<open>createRoom\<close>. \<open>generateId\<close> draws from \<open>Math.random\<close> and \<open>Date.now\<close> reads the
  clock; neither is part of the model, so the values the calls return are arguments:
  \<open>g1\<close> and \<open>g2\<close> are the results of the first and the second \<open>generateId()\<close> call,
  \<open>now\<close> the result of \<open>Date.now()\<close>.
\<close>

definition createRoom :: "string \<Rightarrow> string \<Rightarrow> real \<Rightarrow> string \<Rightarrow> browser \<Rightarrow> RoomState \<times> browser" where
  "createRoom g1 g2 now vid b =
     (let initialState = \<lparr>roomId = g1, hostId = g2, videoId = vid,
                           isPlaying = False, timestamp = 0, lastUpdated = now\<rparr>;
          b1 = b\<lparr>localStorage := (localStorage b)(STORAGE_PREFIX @ g1 \<mapsto> initialState)\<rparr>;
          b2 = b1\<lparr>sessionStorage := (sessionStorage b1)(''role_'' @ g1 \<mapsto> ''host'')\<rparr>;
          b3 = b2\<lparr>sessionStorage := (sessionStorage b2)(''userId'' \<mapsto> g2)\<rparr>
      in (initialState, b3))"

text \<open>
  The object \<open>joinRoom\<close> returns, its fields \<open>success\<close>, \<open>state\<close> and \<open>isHost\<close>
  prefixed here (the page component has a state variable \<open>isHost\<close> of its own);
  \<open>state\<close> is optional in the source and absent in the failure result.
\<close>

record join_result =
  res_success :: bool
  res_state :: "RoomState option"
  res_isHost :: bool

text \<open>
  \<open>joinRoom\<close>; \<open>g\<close> is what \<open>generateId()\<close> returns if the call is reached. The
  test \<open>!userId\<close> holds for a missing entry and for the empty string.
\<close>

definition joinRoom :: "string \<Rightarrow> string \<Rightarrow> browser \<Rightarrow> join_result \<times> browser" where
  "joinRoom g rid b =
     (case getRoomState b rid of
        None \<Rightarrow> (\<lparr>res_success = False, res_state = None, res_isHost = False\<rparr>, b)
      | Some st \<Rightarrow>
          (let storedRole = sessionStorage b (''role_'' @ rid);
               host = (storedRole = Some ''host'');
               b' = (case sessionStorage b ''userId'' of
                       None \<Rightarrow> b\<lparr>sessionStorage := (sessionStorage b)(''userId'' \<mapsto> g)\<rparr>
                     | Some u \<Rightarrow>
                         if u = [] then b\<lparr>sessionStorage := (sessionStorage b)(''userId'' \<mapsto> g)\<rparr>
                         else b)
           in (\<lparr>res_success = True, res_state = Some st, res_isHost = host\<rparr>, b')))"

text \<open>
  The object spread \<open>{ ...current, ...updates, lastUpdated: Date.now() }\<close>: a field of
  \<open>updates\<close> that is present replaces the field of \<open>current\<close>, and \<open>lastUpdated\<close>,
  written last, is the clock value whatever \<open>updates\<close> holds.
\<close>

definition spread :: "RoomState \<Rightarrow> RoomStateUpdates \<Rightarrow> real \<Rightarrow> RoomState" where
  "spread current updates now =
     \<lparr>roomId = (case upd_roomId updates of None \<Rightarrow> roomId current | Some x \<Rightarrow> x),
      hostId = (case upd_hostId updates of None \<Rightarrow> hostId current | Some x \<Rightarrow> x),
      videoId = (case upd_videoId updates of None \<Rightarrow> videoId current | Some x \<Rightarrow> x),
      isPlaying = (case upd_isPlaying updates of None \<Rightarrow> isPlaying current | Some x \<Rightarrow> x),
      timestamp = (case upd_timestamp updates of None \<Rightarrow> timestamp current | Some x \<Rightarrow> x),
      lastUpdated = now\<rparr>"

definition updateRoomState :: "real \<Rightarrow> string \<Rightarrow> RoomStateUpdates \<Rightarrow> browser \<Rightarrow> browser" where
  "updateRoomState now rid updates b =
     (case getRoomState b rid of
        None \<Rightarrow> b
      | Some current \<Rightarrow>
          b\<lparr>localStorage := (localStorage b)(STORAGE_PREFIX @ rid \<mapsto> spread current updates now)\<rparr>)"

text \<open>
  The handler \<open>subscribeToRoom\<close> registers for \<open>storage\<close> events: the state it passes
  to the callback, or \<open>None\<close> when the callback is not called.
\<close>

definition storage_handler :: "string \<Rightarrow> string \<Rightarrow> RoomState option \<Rightarrow> RoomState option" where
  "storage_handler rid key newValue =
     (if key = STORAGE_PREFIX @ rid \<and> newValue \<noteq> None then newValue else None)"

section \<open>The player hook (hooks/useYouTube.tsx)\<close>

text \<open>
  The repository holds two versions of the hook and of the room page. \<open>V1\<close> is the
  hook without a guard in its cleanup together with the page whose host heartbeat runs
  every 2000 ms (drift threshold 0.5); \<open>V2\<close> is the hook of \<open>hooks/useYouTube.tsx\<close>
  together with the page that has the scrubber (timer of 500 ms, drift threshold 0.8).
\<close>

datatype variant = V1 | V2

text \<open>
  The YouTube player is external. Of an instance the model keeps what its \<open>destroy()\<close>
  does when called: return (\<open>None\<close>) or throw a value (\<open>Some e\<close>).
\<close>

datatype exn = Thrown string

datatype player = Player (destroy: "exn option")

text \<open>The hook's state: \<open>playerRef.current\<close> and its \<open>isReady\<close> flag (here \<open>ready\<close>).\<close>

record player_hook =
  playerRef :: "player option"
  ready :: bool

text \<open>
  The function the effect returns for cleanup; \<open>Inl e\<close> is the exception \<open>e\<close> leaving
  the function. \<open>V1\<close> calls \<open>destroy()\<close> bare. \<open>V2\<close> calls it inside
  \<open>try { ... } catch(e) { }\<close>, then clears the reference and resets the ready flag.
\<close>

definition cleanup :: "variant \<Rightarrow> player_hook \<Rightarrow> exn + player_hook" where
  "cleanup v h =
     (case v of
        V1 \<Rightarrow>
          (case playerRef h of
             None \<Rightarrow> Inr h
           | Some p \<Rightarrow> (case destroy p of Some e \<Rightarrow> Inl e | None \<Rightarrow> Inr h))
      | V2 \<Rightarrow>
          (case playerRef h of
             None \<Rightarrow> Inr (h\<lparr>ready := False\<rparr>)
           | Some p \<Rightarrow>
               (case destroy p of
                  Some e \<Rightarrow> Inr (h\<lparr>playerRef := None, ready := False\<rparr>)
                | None \<Rightarrow> Inr (h\<lparr>playerRef := None, ready := False\<rparr>))))"

section \<open>The room page (pages/Room.tsx)\<close>

text \<open>
  The state of the component: its \<open>useState\<close> variables, the \<open>isReady\<close> flag the hook
  returns, whether the \<open>storage\<close> listener is registered, and (second version only) the
  scrubber's \<open>localCurrentTime\<close> and \<open>isDraggingRef.current\<close>. The video's
  \<open>duration\<close>, which only scales the scrubber, is left out.
\<close>

record room =
  roomState :: "RoomState option"
  isHost :: bool
  userInteracted :: bool
  error :: "string option"
  isReady :: bool
  subscribed :: bool
  localCurrentTime :: real
  isDragging :: bool

definition room_init :: room where
  "room_init = \<lparr>roomState = None, isHost = False, userInteracted = False, error = None,
     isReady = False, subscribed = False, localCurrentTime = 0, isDragging = False\<rparr>"

text \<open>The commands a page sends to the player through \<open>controls\<close>.\<close>

datatype command = Play | Pause | SeekTo number

text \<open>JavaScript truthiness of an optional string: \<open>undefined\<close>, \<open>null\<close> and \<open>""\<close> are falsy.\<close>

definition truthy :: "string option \<Rightarrow> bool" where
  "truthy x = (case x of None \<Rightarrow> False | Some s \<Rightarrow> s \<noteq> [])"

definition not_found_message :: "variant \<Rightarrow> string" where
  "not_found_message v =
     (case v of
        V1 \<Rightarrow> ''Room not found. It may have expired or never existed.''
      | V2 \<Rightarrow> ''Room not found or expired.'')"

text \<open>
  The effect that initialises the room (dependency \<open>roomId\<close>, the route parameter).
  On a failed join it sets the error and returns before \<open>subscribeToRoom\<close>. The second
  version also marks a host as having interacted.
\<close>

definition initRoom :: "variant \<Rightarrow> string \<Rightarrow> string option \<Rightarrow> room \<Rightarrow> browser \<Rightarrow> room \<times> browser" where
  "initRoom v g roomIdParam c b =
     (case roomIdParam of
        None \<Rightarrow> (c, b)
      | Some rid \<Rightarrow>
          if rid = [] then (c, b)
          else
            (let (r, b') = joinRoom g rid b in
               if \<not> res_success r \<or> res_state r = None
               then (c\<lparr>error := Some (not_found_message v)\<rparr>, b')
               else
                 (c\<lparr>roomState := res_state r,
                    isHost := res_isHost r,
                    userInteracted := (if v = V2 \<and> res_isHost r then True else userInteracted c),
                    subscribed := True\<rparr>, b')))"

text \<open>A \<open>storage\<close> event reaching the page: the callback is \<open>setRoomState\<close>.\<close>

definition onStorage :: "string option \<Rightarrow> string \<Rightarrow> RoomState option \<Rightarrow> room \<Rightarrow> room" where
  "onStorage roomIdParam key newValue c =
     (case roomIdParam of
        None \<Rightarrow> c
      | Some rid \<Rightarrow>
          if subscribed c then
            (case storage_handler rid key newValue of
               None \<Rightarrow> c
             | Some st \<Rightarrow> c\<lparr>roomState := Some st\<rparr>)
          else c)"

text \<open>
  The \<open>onStateChange\<close> callback given to the hook: \<open>playerState\<close> is \<open>event.data\<close>,
  \<open>currentTime\<close> is \<open>event.target.getCurrentTime()\<close>.
\<close>

definition onStateChange :: "string option \<Rightarrow> room \<Rightarrow> real \<Rightarrow> int \<Rightarrow> real \<Rightarrow> browser \<Rightarrow> browser" where
  "onStateChange roomIdParam c now playerState currentTime b =
     (case roomIdParam of
        None \<Rightarrow> b
      | Some rid \<Rightarrow>
          if isHost c \<and> rid \<noteq> [] \<and> roomState c \<noteq> None then
            (if playerState = 1 then
               updateRoomState now rid
                 (no_updates\<lparr>upd_isPlaying := Some True, upd_timestamp := Some currentTime\<rparr>) b
             else if playerState = 2 then
               updateRoomState now rid
                 (no_updates\<lparr>upd_isPlaying := Some False, upd_timestamp := Some currentTime\<rparr>) b
             else b)
          else b)"

text \<open>
  The host's timer. In the calls below \<open>playerState\<close> is what \<open>controls.getPlayerState()\<close>
  returns (\<open>None\<close> for \<open>undefined\<close>, when there is no player) and \<open>currentTime\<close> what
  \<open>controls.getCurrentTime()\<close> returns.

  First version: the heartbeat effect sets an interval of \<open>heartbeat_interval_ms V1\<close> unless
  \<open>!isHost || !roomId || !isReady\<close>; its callback writes the player's time when the
  player is playing.
\<close>

definition heartbeat_interval_ms :: "variant \<Rightarrow> nat" where
  "heartbeat_interval_ms v = (case v of V1 \<Rightarrow> 2000 | V2 \<Rightarrow> 500)"

definition hostHeartbeat :: "string option \<Rightarrow> room \<Rightarrow> real \<Rightarrow> int option \<Rightarrow> real \<Rightarrow> browser \<Rightarrow> browser" where
  "hostHeartbeat roomIdParam c now playerState currentTime b =
     (case roomIdParam of
        None \<Rightarrow> b
      | Some rid \<Rightarrow>
          if \<not> isHost c \<or> rid = [] \<or> \<not> isReady c then b
          else if playerState = Some 1 then
            updateRoomState now rid (no_updates\<lparr>upd_timestamp := Some currentTime\<rparr>) b
          else b)"

text \<open>
  Second version: the effect sets an interval of \<open>heartbeat_interval_ms V2\<close> unless \<open>!isReady\<close>;
  \<open>updateUIAndHostSync\<close> refreshes the scrubber, and the body of its
  \<open>if (isHost && roomId && controls.getPlayerState() === 1)\<close> holds comments only.
\<close>

definition updateUIAndHostSync :: "string option \<Rightarrow> room \<Rightarrow> real \<Rightarrow> int option \<Rightarrow> real \<Rightarrow> browser \<Rightarrow> room \<times> browser" where
  "updateUIAndHostSync roomIdParam c now playerState currentTime b =
     (if \<not> isReady c then (c, b)
      else
        (let c' = (if \<not> isDragging c then c\<lparr>localCurrentTime := currentTime\<rparr> else c)
         in if isHost c \<and> truthy roomIdParam \<and> playerState = Some 1 then (c', b) else (c', b)))"

definition hostTimer :: "variant \<Rightarrow> string option \<Rightarrow> room \<Rightarrow> real \<Rightarrow> int option \<Rightarrow> real \<Rightarrow> browser \<Rightarrow> room \<times> browser" where
  "hostTimer v roomIdParam c now playerState currentTime b =
     (case v of
        V1 \<Rightarrow> (c, hostHeartbeat roomIdParam c now playerState currentTime b)
      | V2 \<Rightarrow> updateUIAndHostSync roomIdParam c now playerState currentTime b)"

text \<open>
  The listener's reconciliation. \<open>checkSync\<close> is the interval callback, with the room
  state \<open>rs\<close> of its closure; the commands are listed in the order they are sent. The
  target time, the drift and the comparison with \<open>MAX_DRIFT\<close> are computed in binary64,
  each operation rounding as the code's does.
\<close>

definition MAX_DRIFT :: "variant \<Rightarrow> number" where
  "MAX_DRIFT v = (case v of V1 \<Rightarrow> to_double 0.5 | V2 \<Rightarrow> to_double 0.8)"

definition checkSync :: "variant \<Rightarrow> RoomState \<Rightarrow> real \<Rightarrow> int option \<Rightarrow> real \<Rightarrow> command list" where
  "checkSync v rs now playerState currentTime =
     (let targetTime =
            (if isPlaying rs then
               js_add (to_double (timestamp rs))
                 (js_div (js_sub (to_double now) (to_double (lastUpdated rs))) (to_double 1000))
             else to_double (timestamp rs));
          drift = js_abs (js_sub (to_double currentTime) targetTime)
      in (if js_gt drift (MAX_DRIFT v) then [SeekTo targetTime] else [])
         @ (if isPlaying rs \<and> playerState \<noteq> Some 1 \<and> playerState \<noteq> Some 3 then [Play]
            else if \<not> isPlaying rs \<and> playerState = Some 1 then [Pause]
            else []))"

text \<open>
  One tick of the listener's timer (1000 ms in both versions). The effect sets the
  interval unless \<open>isHost || !roomState || !isReady || !userInteracted\<close>, and its
  dependencies make it clear the interval and run again whenever one of the four
  changes. The model takes a tick to see the page state of the moment it fires: with
  the guard false there is no interval and the tick does nothing, otherwise
  \<open>checkSync\<close> runs on the cached room state.
\<close>

definition syncTick :: "variant \<Rightarrow> room \<Rightarrow> real \<Rightarrow> int option \<Rightarrow> real \<Rightarrow> command list" where
  "syncTick v c now playerState currentTime =
     (if isHost c \<or> roomState c = None \<or> \<not> isReady c \<or> \<not> userInteracted c then []
      else (case roomState c of
              None \<Rightarrow> []
            | Some rs \<Rightarrow> checkSync v rs now playerState currentTime))"

text \<open>
  What the page renders: the error screen, the loading screen, or the room. The host's
  controls are part of the room only for a host, the join overlay only for a listener
  who has not interacted.
\<close>

datatype view = ErrorView string | LoadingView | RoomView

definition render :: "room \<Rightarrow> view" where
  "render c =
     (case (if truthy (error c) then error c else None) of
        Some e \<Rightarrow> ErrorView e
      | None \<Rightarrow> (case roomState c of None \<Rightarrow> LoadingView | Some rs \<Rightarrow> RoomView))"

definition host_controls_shown :: "room \<Rightarrow> bool" where
  "host_controls_shown c = (render c = RoomView \<and> isHost c)"

definition join_overlay_shown :: "room \<Rightarrow> bool" where
  "join_overlay_shown c = (render c = RoomView \<and> \<not> isHost c \<and> \<not> userInteracted c)"

text \<open>The host's handlers; \<open>currentTime\<close> is what \<open>controls.getCurrentTime()\<close> returns.\<close>

definition handleHostPlay :: "string option \<Rightarrow> room \<Rightarrow> real \<Rightarrow> real \<Rightarrow> browser \<Rightarrow> command list \<times> browser" where
  "handleHostPlay roomIdParam c now currentTime b =
     (if \<not> isReady c then ([], b)
      else
        ([Play],
         (case roomIdParam of
            None \<Rightarrow> b
          | Some rid \<Rightarrow>
              if rid = [] then b
              else updateRoomState now rid
                     (no_updates\<lparr>upd_isPlaying := Some True, upd_timestamp := Some currentTime\<rparr>) b)))"

definition handleHostPause :: "string option \<Rightarrow> room \<Rightarrow> real \<Rightarrow> real \<Rightarrow> browser \<Rightarrow> command list \<times> browser" where
  "handleHostPause roomIdParam c now currentTime b =
     (if \<not> isReady c then ([], b)
      else
        ([Pause],
         (case roomIdParam of
            None \<Rightarrow> b
          | Some rid \<Rightarrow>
              if rid = [] then b
              else updateRoomState now rid
                     (no_updates\<lparr>upd_isPlaying := Some False, upd_timestamp := Some currentTime\<rparr>) b)))"

definition handleHostPlayPause :: "string option \<Rightarrow> room \<Rightarrow> real \<Rightarrow> real \<Rightarrow> browser \<Rightarrow> command list \<times> browser" where
  "handleHostPlayPause roomIdParam c now currentTime b =
     (case roomIdParam of
        None \<Rightarrow> ([], b)
      | Some rid \<Rightarrow>
          (case roomState c of
             None \<Rightarrow> ([], b)
           | Some rs \<Rightarrow>
               if \<not> isReady c \<or> rid = [] then ([], b)
               else if isPlaying rs then
                 ([Pause], updateRoomState now rid
                    (no_updates\<lparr>upd_isPlaying := Some False, upd_timestamp := Some currentTime\<rparr>) b)
               else
                 ([Play], updateRoomState now rid
                    (no_updates\<lparr>upd_isPlaying := Some True, upd_timestamp := Some currentTime\<rparr>) b)))"

definition handleSeekEnd :: "string option \<Rightarrow> room \<Rightarrow> real \<Rightarrow> real \<Rightarrow> browser \<Rightarrow> (room \<times> browser) \<times> command list" where
  "handleSeekEnd roomIdParam c now time b =
     (case roomIdParam of
        None \<Rightarrow> ((c, b), [])
      | Some rid \<Rightarrow>
          if rid = [] then ((c, b), [])
          else ((c\<lparr>isDragging := False\<rparr>,
                 updateRoomState now rid (no_updates\<lparr>upd_timestamp := Some time\<rparr>) b),
                [SeekTo (to_double time)]))"

section \<open>A session of the room page\<close>

text \<open>
  What can happen to a mounted page, each with the values the environment supplies:
  the initialising effect runs (\<open>g\<close> as in \<open>joinRoom\<close>); a \<open>storage\<close> event arrives
  from another tab; the player reports ready, is torn down, or changes state; the host's
  timer or the listener's timer fires (clock, player state, player time); the user
  clicks the join overlay, the play/pause button, or uses the scrubber.
\<close>

datatype event =
    Mount string
  | StorageEvent string "RoomState option"
  | PlayerReady
  | PlayerCleanup
  | PlayerStateChange real int real
  | HostTimer real "int option" real
  | SyncTick real "int option" real
  | ClickJoinSync
  | ClickPlayPause real real
  | SeekStart
  | SeekChange real
  | SeekEnd real real

text \<open>
  One event on the page and the stores: the new page state and stores, and the player
  commands sent. A click counts only where its control is rendered. The play/pause
  button of the first version is bound to \<open>handleHostPause\<close> when the page's room state
  says playing and to \<open>handleHostPlay\<close> otherwise; the scrubber exists in the second
  version only.
\<close>

fun step :: "variant \<Rightarrow> string option \<Rightarrow> event \<Rightarrow> room \<times> browser \<Rightarrow> (room \<times> browser) \<times> command list" where
  "step v roomIdParam (Mount g) (c, b) = (initRoom v g roomIdParam c b, [])"
| "step v roomIdParam (StorageEvent key newValue) (c, b) =
     ((onStorage roomIdParam key newValue c, b), [])"
| "step v roomIdParam PlayerReady (c, b) = ((c\<lparr>isReady := True\<rparr>, b), [])"
| "step v roomIdParam PlayerCleanup (c, b) =
     (((case v of V1 \<Rightarrow> c | V2 \<Rightarrow> c\<lparr>isReady := False\<rparr>), b), [])"
| "step v roomIdParam (PlayerStateChange now playerState currentTime) (c, b) =
     ((c, onStateChange roomIdParam c now playerState currentTime b), [])"
| "step v roomIdParam (HostTimer now playerState currentTime) (c, b) =
     (hostTimer v roomIdParam c now playerState currentTime b, [])"
| "step v roomIdParam (SyncTick now playerState currentTime) (c, b) =
     ((c, b), syncTick v c now playerState currentTime)"
| "step v roomIdParam ClickJoinSync (c, b) =
     (((if join_overlay_shown c then c\<lparr>userInteracted := True\<rparr> else c), b), [])"
| "step v roomIdParam (ClickPlayPause now currentTime) (c, b) =
     (if host_controls_shown c then
        (let (cmds, b') =
               (case v of
                  V1 \<Rightarrow>
                    (case roomState c of
                       None \<Rightarrow> ([], b)
                     | Some rs \<Rightarrow>
                         if isPlaying rs then handleHostPause roomIdParam c now currentTime b
                         else handleHostPlay roomIdParam c now currentTime b)
                | V2 \<Rightarrow> handleHostPlayPause roomIdParam c now currentTime b)
         in ((c, b'), cmds))
      else ((c, b), []))"
| "step v roomIdParam SeekStart (c, b) =
     (((if v = V2 \<and> host_controls_shown c then c\<lparr>isDragging := True\<rparr> else c), b), [])"
| "step v roomIdParam (SeekChange time) (c, b) =
     (((if v = V2 \<and> host_controls_shown c then c\<lparr>localCurrentTime := time\<rparr> else c), b), [])"
| "step v roomIdParam (SeekEnd now time) (c, b) =
     (if v = V2 \<and> host_controls_shown c then handleSeekEnd roomIdParam c now time b
      else ((c, b), []))"

text \<open>A sequence of events: the final page state and stores, and all commands sent, in order.\<close>

fun run :: "variant \<Rightarrow> string option \<Rightarrow> event list \<Rightarrow> room \<times> browser \<Rightarrow> (room \<times> browser) \<times> command list" where
  "run v roomIdParam [] s = (s, [])"
| "run v roomIdParam (e # es) s =
     (let (s1, cmds1) = step v roomIdParam e s;
          (s2, cmds2) = run v roomIdParam es s1
      in (s2, cmds1 @ cmds2))"

fun is_SeekTo :: "command \<Rightarrow> bool" where
  "is_SeekTo (SeekTo t) = True"
| "is_SeekTo c = False"

text \<open>
  The events that hand a room state to the page: the initialising effect (through the
  result of \<open>joinRoom\<close>) and a \<open>storage\<close> event that carries a value.
\<close>

fun delivers_state :: "event \<Rightarrow> bool" where
  "delivers_state (Mount g) = True"
| "delivers_state (StorageEvent key (Some st)) = True"
| "delivers_state e = False"

text \<open>A store with one paused room \<open>r1\<close>, used to run the service on concrete inputs.\<close>

definition demo_room :: RoomState where
  "demo_room = \<lparr>roomId = ''r1'', hostId = ''h1'', videoId = ''abc123'',
     isPlaying = False, timestamp = 10, lastUpdated = 1000\<rparr>"

definition demo_browser :: browser where
  "demo_browser = \<lparr>localStorage = [STORAGE_PREFIX @ ''r1'' \<mapsto> demo_room],
     sessionStorage = Map.empty\<rparr>"

definition playing_room :: RoomState where
  "playing_room = \<lparr>roomId = ''r1'', hostId = ''h1'', videoId = ''abc123'',
     isPlaying = True, timestamp = 10, lastUpdated = 1000\<rparr>"

text \<open>
  A listener's page that has joined, whose player is ready and whose user has clicked the
  overlay; and a host's page whose player is ready.
\<close>

definition listener_page :: "RoomState \<Rightarrow> room" where
  "listener_page rs = room_init\<lparr>roomState := Some rs, userInteracted := True,
     isReady := True, subscribed := True\<rparr>"

definition host_page :: "RoomState \<Rightarrow> room" where
  "host_page rs = room_init\<lparr>roomState := Some rs, isHost := True,
     isReady := True, subscribed := True\<rparr>"

definition playing_browser :: browser where
  "playing_browser = \<lparr>localStorage = [STORAGE_PREFIX @ ''r1'' \<mapsto> playing_room],
     sessionStorage = [''role_r1'' \<mapsto> ''host'', ''userId'' \<mapsto> ''h1'']\<rparr>"

text \<open>The stores of a tab that has never created the room \<open>r1\<close>.\<close>

definition listener_browser :: browser where
  "listener_browser = \<lparr>localStorage = [STORAGE_PREFIX @ ''r1'' \<mapsto> playing_room],
     sessionStorage = Map.empty\<rparr>"

section \<open>Properties of the room service\<close>

lemma getRoomState_update_same:
  "getRoomState b rid = Some current \<Longrightarrow>
   getRoomState (updateRoomState now rid updates b) rid = Some (spread current updates now)"
  by (simp add: updateRoomState_def getRoomState_def)

lemma prefix_key_inject: "(STORAGE_PREFIX @ r = STORAGE_PREFIX @ r') = (r = r')"
  by simp

lemma getRoomState_update_other:
  "r \<noteq> rid \<Longrightarrow> getRoomState (updateRoomState now rid updates b) r = getRoomState b r"
  by (simp add: updateRoomState_def getRoomState_def split: option.splits)

lemma sessionStorage_update:
  "sessionStorage (updateRoomState now rid updates b) = sessionStorage b"
  by (simp add: updateRoomState_def split: option.splits)

text \<open>
  Claim C4. For a room that exists, \<open>updateRoomState\<close> stores a state in which every
  field other than \<open>lastUpdated\<close> is the value given in the partial update when the
  update has the field and the stored value otherwise, and \<open>lastUpdated\<close> is the clock
  value of the write; \<open>getRoomState\<close> then returns that state. The states of the other
  rooms and the session store are untouched.
\<close>

theorem updateRoomState_merges_present_fields:
  assumes "getRoomState b rid = Some current"
  shows "\<exists>new. getRoomState (updateRoomState now rid updates b) rid = Some new
     \<and> roomId new = (case upd_roomId updates of None \<Rightarrow> roomId current | Some x \<Rightarrow> x)
     \<and> hostId new = (case upd_hostId updates of None \<Rightarrow> hostId current | Some x \<Rightarrow> x)
     \<and> videoId new = (case upd_videoId updates of None \<Rightarrow> videoId current | Some x \<Rightarrow> x)
     \<and> isPlaying new = (case upd_isPlaying updates of None \<Rightarrow> isPlaying current | Some x \<Rightarrow> x)
     \<and> timestamp new = (case upd_timestamp updates of None \<Rightarrow> timestamp current | Some x \<Rightarrow> x)
     \<and> lastUpdated new = now
     \<and> (\<forall>r. r \<noteq> rid \<longrightarrow> getRoomState (updateRoomState now rid updates b) r = getRoomState b r)
     \<and> sessionStorage (updateRoomState now rid updates b) = sessionStorage b"
proof -
  have stored: "getRoomState (updateRoomState now rid updates b) rid = Some (spread current updates now)"
    using assms by (rule getRoomState_update_same)
  have frame: "\<forall>r. r \<noteq> rid \<longrightarrow> getRoomState (updateRoomState now rid updates b) r = getRoomState b r"
    by (simp add: getRoomState_update_other)
  show ?thesis
    using stored frame by (simp add: spread_def sessionStorage_update)
qed

theorem updateRoomState_merges_present_fields_witness:
  "getRoomState demo_browser ''r1'' = Some demo_room
   \<and> getRoomState (updateRoomState 5000 ''r1''
         (no_updates\<lparr>upd_isPlaying := Some True, upd_timestamp := Some 42\<rparr>) demo_browser) ''r1''
       = Some \<lparr>roomId = ''r1'', hostId = ''h1'', videoId = ''abc123'',
               isPlaying = True, timestamp = 42, lastUpdated = 5000\<rparr>"
proof -
  have h: "getRoomState demo_browser ''r1'' = Some demo_room"
    by (simp add: getRoomState_def demo_browser_def)
  show ?thesis
    using h updateRoomState_merges_present_fields [OF h, of 5000
        "no_updates\<lparr>upd_isPlaying := Some True, upd_timestamp := Some 42\<rparr>"]
    by (auto simp: no_updates_def demo_room_def)
qed

text \<open>
  Claim C5. With the same clock value, merging the same partial update a second time
  changes nothing: on a state (the spread) and on the store (\<open>updateRoomState\<close>).
\<close>

theorem updateRoomState_idempotent:
  "spread (spread s p now) p now = spread s p now
   \<and> updateRoomState now rid p (updateRoomState now rid p b) = updateRoomState now rid p b"
proof
  show "spread (spread s p now) p now = spread s p now"
    by (simp add: spread_def split: option.splits)
next
  show "updateRoomState now rid p (updateRoomState now rid p b) = updateRoomState now rid p b"
  proof (cases "getRoomState b rid")
    case None
    then show ?thesis by (simp add: updateRoomState_def)
  next
    case (Some current)
    then show ?thesis
      by (simp add: updateRoomState_def getRoomState_def spread_def split: option.splits)
  qed
qed

theorem updateRoomState_idempotent_witness:
  "getRoomState (updateRoomState 5000 ''r1'' (no_updates\<lparr>upd_timestamp := Some 42\<rparr>)
      (updateRoomState 5000 ''r1'' (no_updates\<lparr>upd_timestamp := Some 42\<rparr>) demo_browser)) ''r1''
   = Some (demo_room\<lparr>timestamp := 42, lastUpdated := 5000\<rparr>)"
  using updateRoomState_idempotent [of demo_room "no_updates\<lparr>upd_timestamp := Some 42\<rparr>" 5000
      "''r1''" demo_browser]
  by (simp add: updateRoomState_def getRoomState_def demo_browser_def demo_room_def
      spread_def no_updates_def)

text \<open>
  Claim C9. For a room identifier with nothing stored, \<open>updateRoomState\<close> returns the
  stores as they were, for every partial update and clock value: no room is created and
  nothing is written. The path runs one \<open>getItem\<close> and the early \<open>return\<close>; it has no
  statement that can throw, and the model has no error result on it.
\<close>

theorem updateRoomState_absent_room_noop:
  assumes "getRoomState b rid = None"
  shows "updateRoomState now rid updates b = b
     \<and> getRoomState (updateRoomState now rid updates b) rid = None"
  using assms by (simp add: updateRoomState_def)

theorem updateRoomState_absent_room_noop_witness:
  "getRoomState demo_browser ''zzz'' = None
   \<and> updateRoomState 5000 ''zzz'' (no_updates\<lparr>upd_isPlaying := Some True\<rparr>) demo_browser
       = demo_browser"
proof -
  have h: "getRoomState demo_browser ''zzz'' = None"
    by (simp add: getRoomState_def demo_browser_def STORAGE_PREFIX_def)
  show ?thesis
    using h updateRoomState_absent_room_noop [OF h, of 5000 "no_updates\<lparr>upd_isPlaying := Some True\<rparr>"]
    by simp
qed

text \<open>
  Claim C10. \<open>createRoom\<close> returns the state made of the first generated identifier as
  \<open>roomId\<close>, the second as \<open>hostId\<close>, the given \<open>videoId\<close>, \<open>isPlaying = false\<close>,
  \<open>timestamp = 0\<close> and the clock value as \<open>lastUpdated\<close>; the same state is what
  \<open>getRoomState\<close> reads back for that \<open>roomId\<close>; the session store binds the session as
  host of the room and records \<open>hostId\<close> as its user, so that a later \<open>joinRoom\<close> of the
  same session resolves to host.
\<close>

theorem createRoom_persists_initial_state:
  "fst (createRoom g1 g2 now vid b)
     = \<lparr>roomId = g1, hostId = g2, videoId = vid, isPlaying = False, timestamp = 0, lastUpdated = now\<rparr>
   \<and> getRoomState (snd (createRoom g1 g2 now vid b)) g1 = Some (fst (createRoom g1 g2 now vid b))
   \<and> sessionStorage (snd (createRoom g1 g2 now vid b)) (''role_'' @ g1) = Some ''host''
   \<and> sessionStorage (snd (createRoom g1 g2 now vid b)) ''userId'' = Some g2
   \<and> fst (joinRoom g g1 (snd (createRoom g1 g2 now vid b)))
       = \<lparr>res_success = True, res_state = Some (fst (createRoom g1 g2 now vid b)), res_isHost = True\<rparr>"
  by (simp add: createRoom_def joinRoom_def getRoomState_def Let_def split: option.splits)

theorem createRoom_persists_initial_state_witness:
  "createRoom ''k3x9q2a'' ''m1n8b7c'' 1000 ''abc123'' demo_browser
     = (\<lparr>roomId = ''k3x9q2a'', hostId = ''m1n8b7c'', videoId = ''abc123'',
          isPlaying = False, timestamp = 0, lastUpdated = 1000\<rparr>,
        snd (createRoom ''k3x9q2a'' ''m1n8b7c'' 1000 ''abc123'' demo_browser))
   \<and> getRoomState (snd (createRoom ''k3x9q2a'' ''m1n8b7c'' 1000 ''abc123'' demo_browser)) ''k3x9q2a''
     = Some \<lparr>roomId = ''k3x9q2a'', hostId = ''m1n8b7c'', videoId = ''abc123'',
          isPlaying = False, timestamp = 0, lastUpdated = 1000\<rparr>"
  using createRoom_persists_initial_state [of "''k3x9q2a''" "''m1n8b7c''" 1000 "''abc123''" demo_browser]
  by (simp add: prod_eq_iff)

section \<open>Properties of JavaScript numbers\<close>

text \<open>
  Evaluating \<open>to_double\<close> at a given real: with the exponent and the rounded
  significand at hand, the value follows.
\<close>

lemmas exponent_eval = exponent_def exponent_up.simps exponent_down.simps

lemma to_double_zero [simp]: "to_double 0 = Finite 0"
  by (simp add: to_double_def)

lemma to_double_at:
  assumes "x \<noteq> 0" and "exponent \<bar>x\<bar> = e"
    and "round_half_even (\<bar>x\<bar> / 2 powi (e - 52)) = n"
    and "of_int n * 2 powi (e - 52) < (2::real) powi 1024"
  shows "to_double x
       = Finite (if 0 < x then of_int n * 2 powi (e - 52) else - (of_int n * 2 powi (e - 52)))"
proof -
  have "to_double x =
      (if 2 powi 1024 \<le> of_int n * (2::real) powi (e - 52)
       then (if 0 < x then PosInfinity else NegInfinity)
       else Finite (if 0 < x then of_int n * 2 powi (e - 52) else - (of_int n * 2 powi (e - 52))))"
    unfolding to_double_def Let_def assms(2) assms(3) using assms(1) by (simp only: if_False)
  also have "\<dots>
      = Finite (if 0 < x then of_int n * 2 powi (e - 52) else - (of_int n * 2 powi (e - 52)))"
    using assms(4) by (simp only: not_le [symmetric] if_False)
  finally show ?thesis .
qed

text \<open>Integers below \<open>2^53\<close> in magnitude are binary64 values: converting keeps them.\<close>

lemma round_half_even_of_int [simp]: "round_half_even (of_int k) = k"
  by (simp add: round_half_even_def Let_def)

lemma exponent_up_spec:
  assumes "2 powi e \<le> a" and "e \<le> 1023"
  shows "2 powi (exponent_up e a) \<le> a \<and> e \<le> exponent_up e a \<and> exponent_up e a \<le> 1023"
  using assms
proof (induction e a rule: exponent_up.induct)
  case (1 e a)
  show ?case
  proof (cases "e < 1023 \<and> 2 powi (e + 1) \<le> a")
    case True
    then have "2 powi exponent_up (e + 1) a \<le> a \<and> e + 1 \<le> exponent_up (e + 1) a
        \<and> exponent_up (e + 1) a \<le> 1023"
      using "1.IH" by simp
    moreover have "exponent_up e a = exponent_up (e + 1) a"
      using True by (subst exponent_up.simps) simp
    ultimately show ?thesis by simp
  next
    case False
    then have "exponent_up e a = e" by (subst exponent_up.simps) auto
    then show ?thesis using "1.prems" by simp
  qed
qed

lemma to_double_integer:
  assumes "x \<in> \<int>" and "\<bar>x\<bar> < 2 ^ 53"
  shows "to_double x = Finite x"
proof (cases "x = 0")
  case True
  then show ?thesis by simp
next
  case False
  define a where "a = \<bar>x\<bar>"
  have a_int: "a \<in> \<int>" using assms(1) by (simp add: a_def)
  have a_pos: "0 < a" using False by (simp add: a_def)
  from a_int obtain k :: int where k: "a = of_int k" by (auto elim: Ints_cases)
  have a_ge1: "1 \<le> a"
  proof -
    from a_pos k have "0 < k" by simp
    then have "1 \<le> k" by simp
    then show ?thesis using k by simp
  qed
  define e where "e = exponent a"
  have e_up: "e = exponent_up 0 a" using a_ge1 by (simp add: e_def exponent_def)
  have spec: "2 powi e \<le> a \<and> 0 \<le> e \<and> e \<le> 1023"
    using exponent_up_spec [of 0 a] a_ge1 by (simp add: e_up)
  have e_le: "e \<le> 52"
  proof (rule ccontr)
    assume "\<not> e \<le> 52"
    then have "53 \<le> e" by simp
    then have "(2::real) powi 53 \<le> 2 powi e" by (intro power_int_increasing) simp_all
    with spec have "(2::real) ^ 53 \<le> a" by simp
    with assms(2) show False by (simp add: a_def)
  qed
  have q: "(2::real) powi (e - 52) = 1 / 2 ^ nat (52 - e)"
  proof -
    have "(2::real) powi (e - 52) = 2 powi (- int (nat (52 - e)))" using e_le by simp
    also have "\<dots> = 1 / 2 ^ nat (52 - e)"
      by (simp only: power_int_minus power_int_of_nat inverse_eq_divide)
    finally show ?thesis .
  qed
  have scaled: "a / 2 powi (e - 52) = of_int (k * 2 ^ nat (52 - e))"
    by (simp add: q k)
  have rnd: "round_half_even (a / 2 powi (e - 52)) = k * 2 ^ nat (52 - e)"
    by (simp only: scaled round_half_even_of_int)
  have restored: "of_int (k * 2 ^ nat (52 - e)) * (2::real) powi (e - 52) = a"
    by (simp add: q k)
  have small: "a < 2 powi 1024"
  proof -
    have "(2::real) ^ 53 \<le> 2 ^ 1024" by (intro power_increasing) simp_all
    with assms(2) show ?thesis by (simp add: a_def)
  qed
  have "to_double x = Finite (if 0 < x then a else - a)"
    using to_double_at [of x e "k * 2 ^ nat (52 - e)"] False rnd restored small
    by (simp add: a_def [symmetric] e_def)
  then show ?thesis by (simp add: a_def)
qed

text \<open>
  The binary64 values of the decimals and of the intermediate results used in the runs
  below. \<open>0.1\<close>-style decimals are not binary64 values; sums and differences of two
  binary64 values need not be either.
\<close>

lemma double_0_5: "to_double (1 / 2) = Finite (1 / 2)"
proof -
  have e: "exponent \<bar>1 / 2 :: real\<bar> = - 1"
    by (simp add: exponent_eval)
  have n: "round_half_even (\<bar>1 / 2\<bar> / 2 powi (- 1 - 52)) = 4503599627370496"
    by (simp add: round_half_even_def Let_def)
  show ?thesis
    using to_double_at [OF _ e n] by simp
qed

lemma double_0_8: "to_double (4 / 5) = Finite (3602879701896397 / 4503599627370496)"
proof -
  have e: "exponent \<bar>4 / 5 :: real\<bar> = - 1"
    by (simp add: exponent_eval)
  have n: "round_half_even (\<bar>4 / 5\<bar> / 2 powi (- 1 - 52)) = 7205759403792794"
    by (simp add: round_half_even_def Let_def)
  show ?thesis
    using to_double_at [OF _ e n] by simp
qed

lemma double_10_2: "to_double (51 / 5) = Finite (2871044762448691 / 281474976710656)"
proof -
  have e: "exponent \<bar>51 / 5 :: real\<bar> = 3"
    by (simp add: exponent_eval)
  have n: "round_half_even (\<bar>51 / 5\<bar> / 2 powi (3 - 52)) = 5742089524897382"
    by (simp add: round_half_even_def Let_def)
  show ?thesis
    using to_double_at [OF _ e n] by simp
qed

lemma double_10_2_minus_13: "to_double (- (788129934789837 / 281474976710656)) = Finite (- (788129934789837 / 281474976710656))"
proof -
  have e: "exponent \<bar>- (788129934789837 / 281474976710656) :: real\<bar> = 1"
    by (simp add: exponent_eval)
  have n: "round_half_even (\<bar>- (788129934789837 / 281474976710656)\<bar> / 2 powi (1 - 52)) = 6305039478318696"
    by (simp add: round_half_even_def Let_def)
  show ?thesis
    using to_double_at [OF _ e n] by simp
qed

lemma double_12_5: "to_double (25 / 2) = Finite (25 / 2)"
proof -
  have e: "exponent \<bar>25 / 2 :: real\<bar> = 3"
    by (simp add: exponent_eval)
  have n: "round_half_even (\<bar>25 / 2\<bar> / 2 powi (3 - 52)) = 7036874417766400"
    by (simp add: round_half_even_def Let_def)
  show ?thesis
    using to_double_at [OF _ e n] by simp
qed

lemma double_minus_0_5: "to_double (- (1 / 2)) = Finite (- (1 / 2))"
proof -
  have e: "exponent \<bar>- (1 / 2) :: real\<bar> = - 1"
    by (simp add: exponent_eval)
  have n: "round_half_even (\<bar>- (1 / 2)\<bar> / 2 powi (- 1 - 52)) = 4503599627370496"
    by (simp add: round_half_even_def Let_def)
  show ?thesis
    using to_double_at [OF _ e n] by simp
qed

lemma double_0_6: "to_double (3 / 5) = Finite (5404319552844595 / 9007199254740992)"
proof -
  have e: "exponent \<bar>3 / 5 :: real\<bar> = - 1"
    by (simp add: exponent_eval)
  have n: "round_half_even (\<bar>3 / 5\<bar> / 2 powi (- 1 - 52)) = 5404319552844595"
    by (simp add: round_half_even_def Let_def)
  show ?thesis
    using to_double_at [OF _ e n] by simp
qed

lemma double_1_1: "to_double (11 / 10) = Finite (2476979795053773 / 2251799813685248)"
proof -
  have e: "exponent \<bar>11 / 10 :: real\<bar> = 0"
    by (simp add: exponent_eval)
  have n: "round_half_even (\<bar>11 / 10\<bar> / 2 powi (0 - 52)) = 4953959590107546"
    by (simp add: round_half_even_def Let_def)
  show ?thesis
    using to_double_at [OF _ e n] by simp
qed

lemma double_1_1_minus_0_6: "to_double (4503599627370497 / 9007199254740992) = Finite (4503599627370497 / 9007199254740992)"
proof -
  have e: "exponent \<bar>4503599627370497 / 9007199254740992 :: real\<bar> = - 1"
    by (simp add: exponent_eval)
  have n: "round_half_even (\<bar>4503599627370497 / 9007199254740992\<bar> / 2 powi (- 1 - 52)) = 4503599627370497"
    by (simp add: round_half_even_def Let_def)
  show ?thesis
    using to_double_at [OF _ e n] by simp
qed

lemma double_12_8: "to_double (64 / 5) = Finite (3602879701896397 / 281474976710656)"
proof -
  have e: "exponent \<bar>64 / 5 :: real\<bar> = 3"
    by (simp add: exponent_eval)
  have n: "round_half_even (\<bar>64 / 5\<bar> / 2 powi (3 - 52)) = 7205759403792794"
    by (simp add: round_half_even_def Let_def)
  show ?thesis
    using to_double_at [OF _ e n] by simp
qed

lemma double_12_8_minus_12: "to_double (225179981368525 / 281474976710656) = Finite (225179981368525 / 281474976710656)"
proof -
  have e: "exponent \<bar>225179981368525 / 281474976710656 :: real\<bar> = - 1"
    by (simp add: exponent_eval)
  have n: "round_half_even (\<bar>225179981368525 / 281474976710656\<bar> / 2 powi (- 1 - 52)) = 7205759403792800"
    by (simp add: round_half_even_def Let_def)
  show ?thesis
    using to_double_at [OF _ e n] by simp
qed

lemma double_0_8_again: "to_double (3602879701896397 / 4503599627370496) = Finite (3602879701896397 / 4503599627370496)"
proof -
  have e: "exponent \<bar>3602879701896397 / 4503599627370496 :: real\<bar> = - 1"
    by (simp add: exponent_eval)
  have n: "round_half_even (\<bar>3602879701896397 / 4503599627370496\<bar> / 2 powi (- 1 - 52)) = 7205759403792794"
    by (simp add: round_half_even_def Let_def)
  show ?thesis
    using to_double_at [OF _ e n] by simp
qed

lemma double_0_7: "to_double (7 / 10) = Finite (3152519739159347 / 4503599627370496)"
proof -
  have e: "exponent \<bar>7 / 10 :: real\<bar> = - 1"
    by (simp add: exponent_eval)
  have n: "round_half_even (\<bar>7 / 10\<bar> / 2 powi (- 1 - 52)) = 6305039478318694"
    by (simp add: round_half_even_def Let_def)
  show ?thesis
    using to_double_at [OF _ e n] by simp
qed

lemma double_10_plus_0_7: "to_double (48188516012864307 / 4503599627370496) = Finite (3011782250804019 / 281474976710656)"
proof -
  have e: "exponent \<bar>48188516012864307 / 4503599627370496 :: real\<bar> = 3"
    by (simp add: exponent_eval)
  have n: "round_half_even (\<bar>48188516012864307 / 4503599627370496\<bar> / 2 powi (3 - 52)) = 6023564501608038"
    by (simp add: round_half_even_def Let_def)
  show ?thesis
    using to_double_at [OF _ e n] by simp
qed

lemmas double_table = to_double_integer double_0_5 double_0_8 double_10_2
  double_10_2_minus_13 double_12_5 double_minus_0_5 double_0_6 double_1_1
  double_1_1_minus_0_6 double_12_8 double_12_8_minus_12 double_0_8_again double_0_7
  double_10_plus_0_7

section \<open>Properties of the listener's reconciliation\<close>

text \<open>
  Claim C1. On a tick of a listener that is tracking (not host, a room state cached,
  player ready, user has interacted) the target is \<open>timestamp\<close> when the cached state is
  paused and \<open>timestamp + (now - lastUpdated) / 1000\<close> when it is playing; the seek
  commands of the tick are exactly one seek to the target when the distance of the local
  position from the target exceeds \<open>MAX_DRIFT\<close>, and none when it does not. Sum,
  difference, quotient, absolute value and comparison are the code's, in binary64. The
  tick changes neither the page state nor the stores.
\<close>

theorem listener_tick_seeks_iff_drift_exceeds:
  fixes rs :: RoomState and now currentTime :: real
  defines "targetTime \<equiv>
     (if isPlaying rs then
        js_add (to_double (timestamp rs))
          (js_div (js_sub (to_double now) (to_double (lastUpdated rs))) (to_double 1000))
      else to_double (timestamp rs))"
  assumes "\<not> isHost c" and "roomState c = Some rs" and "isReady c" and "userInteracted c"
  shows "filter is_SeekTo (snd (step v roomIdParam (SyncTick now playerState currentTime) (c, b)))
       = (if js_gt (js_abs (js_sub (to_double currentTime) targetTime)) (MAX_DRIFT v)
          then [SeekTo targetTime] else [])
     \<and> fst (step v roomIdParam (SyncTick now playerState currentTime) (c, b)) = (c, b)"
  using assms(2-5) unfolding targetTime_def
  by (simp add: syncTick_def checkSync_def Let_def)

theorem listener_tick_seeks_iff_drift_exceeds_witness:
  "snd (step V1 (Some ''r1'') (SyncTick 4000 (Some 1) 10.2) (listener_page playing_room, demo_browser))
     = [SeekTo (Finite 13)]
   \<and> filter is_SeekTo
       (snd (step V2 (Some ''r1'') (SyncTick 4000 (Some 1) 12.5) (listener_page playing_room, demo_browser)))
     = []"
proof -
  have h: "\<not> isHost (listener_page playing_room)"
      "roomState (listener_page playing_room) = Some playing_room"
      "isReady (listener_page playing_room)" "userInteracted (listener_page playing_room)"
    by (simp_all add: listener_page_def room_init_def)
  show ?thesis
    using listener_tick_seeks_iff_drift_exceeds [OF h, where v = V1 and roomIdParam = "Some ''r1''"
          and now = 4000 and playerState = "Some 1" and currentTime = "10.2" and b = demo_browser]
      listener_tick_seeks_iff_drift_exceeds [OF h, where v = V2 and roomIdParam = "Some ''r1''"
          and now = 4000 and playerState = "Some 1" and currentTime = "12.5" and b = demo_browser]
    by (simp add: syncTick_def checkSync_def Let_def listener_page_def room_init_def
        playing_room_def MAX_DRIFT_def js_sub_def double_table)
qed

text \<open>
  Four ticks at which rounding decides. A paused room at 0.6 and a player at 1.1: the
  difference is 0.5000000000000001 in binary64, and the first version seeks. A paused
  room at 12 and a player at 12.8: the difference is 0.8000000000000007, and the second
  version seeks. A paused room at 0 and a player at 0.8: the drift is the threshold
  itself, no seek. A room playing from 10 for 700 ms and a player at 10.2: target and
  position are 0.5 apart in binary64, no seek.
\<close>

lemma checkSync_rounds_as_the_code_does:
  "checkSync V1 (demo_room\<lparr>timestamp := 0.6\<rparr>) 4000 (Some 2) 1.1 = [SeekTo (Finite (5404319552844595 / 9007199254740992))]
   \<and> checkSync V2 (demo_room\<lparr>timestamp := 12\<rparr>) 4000 (Some 2) 12.8 = [SeekTo (Finite 12)]
   \<and> checkSync V2 (demo_room\<lparr>timestamp := 0\<rparr>) 4000 (Some 2) 0.8 = []
   \<and> checkSync V1 playing_room 1700 (Some 1) 10.2 = []"
  by (simp add: checkSync_def Let_def demo_room_def playing_room_def MAX_DRIFT_def js_sub_def
      double_table)

text \<open>
  Claim C2. On the same tick, a play command is sent exactly when the cached state says
  playing and the local player state is neither playing (1) nor buffering (3); a pause
  command exactly when the cached state says paused and the local player state is
  playing; with a buffering player no play command is sent. The play and pause commands
  of the tick are the same whatever the clock and the local position are, that is,
  whatever the seek decision is.
\<close>

theorem listener_tick_reconciles_play_pause:
  assumes "\<not> isHost c" and "roomState c = Some rs" and "isReady c" and "userInteracted c"
  shows "(Play \<in> set (snd (step v roomIdParam (SyncTick now playerState currentTime) (c, b)))
            \<longleftrightarrow> isPlaying rs \<and> playerState \<noteq> Some 1 \<and> playerState \<noteq> Some 3)
     \<and> (Pause \<in> set (snd (step v roomIdParam (SyncTick now playerState currentTime) (c, b)))
            \<longleftrightarrow> \<not> isPlaying rs \<and> playerState = Some 1)
     \<and> (playerState = Some 3
            \<longrightarrow> Play \<notin> set (snd (step v roomIdParam (SyncTick now playerState currentTime) (c, b))))
     \<and> filter (\<lambda>x. \<not> is_SeekTo x)
          (snd (step v roomIdParam (SyncTick now playerState currentTime) (c, b)))
       = filter (\<lambda>x. \<not> is_SeekTo x)
          (snd (step v roomIdParam (SyncTick now' playerState currentTime') (c, b)))"
  using assms by (simp add: syncTick_def checkSync_def Let_def)

theorem listener_tick_reconciles_play_pause_witness:
  "snd (step V1 (Some ''r1'') (SyncTick 4000 (Some 2) 13) (listener_page playing_room, demo_browser))
     = [Play]
   \<and> snd (step V1 (Some ''r1'') (SyncTick 4000 (Some 3) 13) (listener_page playing_room, demo_browser))
     = []
   \<and> snd (step V2 (Some ''r1'') (SyncTick 4000 (Some 1) 10) (listener_page demo_room, demo_browser))
     = [Pause]"
proof -
  have h: "\<not> isHost (listener_page rs)" "roomState (listener_page rs) = Some rs"
      "isReady (listener_page rs)" "userInteracted (listener_page rs)" for rs
    by (simp_all add: listener_page_def room_init_def)
  show ?thesis
    using listener_tick_reconciles_play_pause [OF h [of playing_room], where v = V1
          and roomIdParam = "Some ''r1''" and now = 4000 and playerState = "Some 2"
          and currentTime = 13 and b = demo_browser]
      listener_tick_reconciles_play_pause [OF h [of playing_room], where v = V1
          and roomIdParam = "Some ''r1''" and now = 4000 and playerState = "Some 3"
          and currentTime = 13 and b = demo_browser]
      listener_tick_reconciles_play_pause [OF h [of demo_room], where v = V2
          and roomIdParam = "Some ''r1''" and now = 4000 and playerState = "Some 1"
          and currentTime = 10 and b = demo_browser]
    by (simp add: syncTick_def checkSync_def Let_def listener_page_def room_init_def
        playing_room_def demo_room_def MAX_DRIFT_def js_sub_def double_table)
qed

section \<open>Properties of the host's timer\<close>

text \<open>
  The heartbeat of the first version, every 2000 ms: with a host, a ready player and an
  existing room, a tick that finds the player playing stores the player's time as
  \<open>timestamp\<close> (and the clock as \<open>lastUpdated\<close>) and leaves \<open>isPlaying\<close> and the
  identity fields as they were; a tick that finds it in any other state writes nothing.
\<close>

lemma heartbeat_intervals: "heartbeat_interval_ms V1 = 2000 \<and> heartbeat_interval_ms V2 = 500"
  by (simp add: heartbeat_interval_ms_def)

lemma host_heartbeat_first_version_writes_timestamp:
  assumes "isHost c" and "isReady c" and "rid \<noteq> []" and "getRoomState b rid = Some current"
  shows "getRoomState (snd (fst (step V1 (Some rid) (HostTimer now (Some 1) currentTime) (c, b)))) rid
       = Some (current\<lparr>timestamp := currentTime, lastUpdated := now\<rparr>)"
  using assms
  by (simp add: hostTimer_def hostHeartbeat_def getRoomState_update_same spread_def no_updates_def)

lemma host_heartbeat_first_version_idle_when_not_playing:
  assumes "playerState \<noteq> Some 1"
  shows "snd (fst (step V1 roomIdParam (HostTimer now playerState currentTime) (c, b))) = b"
  using assms by (simp add: hostTimer_def hostHeartbeat_def split: option.splits)

text \<open>
  Claim C3, second version. The timer callback \<open>updateUIAndHostSync\<close> never writes to
  the stores: the branch taken for a host whose player is playing is empty. So a
  playing host's position reaches the room state only through player events and
  button clicks, although the comments in that branch say the heartbeat gives late
  joiners the correct time, and although the first version writes it.
\<close>

theorem host_timer_second_version_never_writes:
  "snd (fst (step V2 roomIdParam (HostTimer now playerState currentTime) (c, b))) = b"
  by (simp add: hostTimer_def updateUIAndHostSync_def Let_def)

theorem host_timer_second_version_never_writes_witness:
  "isHost (host_page playing_room) \<and> isReady (host_page playing_room)
   \<and> getRoomState playing_browser ''r1'' = Some playing_room
   \<and> getRoomState
        (snd (fst (step V2 (Some ''r1'') (HostTimer 9000 (Some 1) 17.5)
                     (host_page playing_room, playing_browser)))) ''r1''
       = Some playing_room
   \<and> getRoomState
        (snd (fst (step V1 (Some ''r1'') (HostTimer 9000 (Some 1) 17.5)
                     (host_page playing_room, playing_browser)))) ''r1''
       = Some (playing_room\<lparr>timestamp := 17.5, lastUpdated := 9000\<rparr>)"
proof -
  have stored: "getRoomState playing_browser ''r1'' = Some playing_room"
    by (simp add: getRoomState_def playing_browser_def)
  have page: "isHost (host_page playing_room)" "isReady (host_page playing_room)"
    by (simp_all add: host_page_def room_init_def)
  have first: "getRoomState
        (snd (fst (step V1 (Some ''r1'') (HostTimer 9000 (Some 1) 17.5)
                     (host_page playing_room, playing_browser)))) ''r1''
       = Some (playing_room\<lparr>timestamp := 17.5, lastUpdated := 9000\<rparr>)"
    by (rule host_heartbeat_first_version_writes_timestamp [OF page _ stored]) simp
  show ?thesis
    using host_timer_second_version_never_writes [of "Some ''r1''" 9000 "Some 1" "17.5"
        "host_page playing_room" playing_browser] stored page first
    by simp
qed

section \<open>Properties of the hook's cleanup\<close>

text \<open>
  The cleanup of the second version: whatever \<open>destroy()\<close> does, the cleanup returns,
  with the reference cleared and the ready flag reset.
\<close>

lemma cleanup_second_version_never_throws:
  "\<exists>h'. cleanup V2 h = Inr h' \<and> playerRef h' = None \<and> \<not> ready h'"
  by (simp add: cleanup_def split: option.splits)

text \<open>
  Claim C8, first version. The cleanup calls \<open>destroy()\<close> outside any \<open>try\<close>: when a
  player is installed and its \<open>destroy()\<close> throws, the exception leaves the cleanup.
\<close>

theorem cleanup_first_version_propagates_destroy_failure:
  assumes "playerRef h = Some p" and "destroy p = Some e"
  shows "cleanup V1 h = Inl e"
  using assms by (simp add: cleanup_def)

theorem cleanup_first_version_propagates_destroy_failure_witness:
  "cleanup V1 \<lparr>playerRef = Some (Player (Some (Thrown ''destroy failed''))), ready = True\<rparr>
     = Inl (Thrown ''destroy failed'')
   \<and> cleanup V2 \<lparr>playerRef = Some (Player (Some (Thrown ''destroy failed''))), ready = True\<rparr>
     = Inr \<lparr>playerRef = None, ready = False\<rparr>"
  using cleanup_first_version_propagates_destroy_failure
    [of "\<lparr>playerRef = Some (Player (Some (Thrown ''destroy failed''))), ready = True\<rparr>"
        "Player (Some (Thrown ''destroy failed''))" "Thrown ''destroy failed''"]
  by (simp add: cleanup_def)

section \<open>Properties of a session\<close>

text \<open>
  Single events first. A page that is not host sends commands only from a state in
  which the player is ready, a room state is cached and the user has interacted; a page
  without a room state sends none; an event keeps a listener a listener (the role entry
  of the session store is written by \<open>createRoom\<close> only) and never removes the cached
  room state.
\<close>

lemma step_commands_need_tracking:
  assumes "\<not> isHost (fst s)" and "snd (step v roomIdParam e s) \<noteq> []"
  shows "isReady (fst s) \<and> roomState (fst s) \<noteq> None \<and> userInteracted (fst s)"
  using assms
  by (cases s; cases e) (auto simp: syncTick_def host_controls_shown_def split: if_splits)

lemma step_no_state_no_commands:
  assumes "roomState (fst s) = None"
  shows "snd (step v roomIdParam e s) = []"
  using assms
  by (cases s; cases e)
     (auto simp: syncTick_def host_controls_shown_def render_def split: if_splits option.splits)

lemma joinRoom_role_kept:
  "sessionStorage (snd (joinRoom g rid b)) (''role_'' @ r) = sessionStorage b (''role_'' @ r)"
  by (simp add: joinRoom_def Let_def split: option.splits)

lemma joinRoom_isHost:
  "res_isHost (fst (joinRoom g rid b)) = (getRoomState b rid \<noteq> None \<and> sessionStorage b (''role_'' @ rid) = Some ''host'')"
  by (auto simp add: joinRoom_def Let_def split: option.splits)

lemma step_keeps_listener:
  assumes "\<not> isHost (fst s)" and "sessionStorage (snd s) (''role_'' @ rid) \<noteq> Some ''host''"
  shows "\<not> isHost (fst (fst (step v (Some rid) e s)))
     \<and> sessionStorage (snd (fst (step v (Some rid) e s))) (''role_'' @ rid) \<noteq> Some ''host''"
proof (cases s)
  case (Pair c b)
  show ?thesis
  proof (cases e)
    case (Mount g)
    then show ?thesis using assms Pair joinRoom_role_kept[of g rid b rid] joinRoom_isHost[of g rid b]
      by (auto simp: initRoom_def Let_def split: prod.splits if_splits)
  qed (use assms Pair in \<open>auto simp: onStorage_def onStateChange_def hostTimer_def hostHeartbeat_def
         updateUIAndHostSync_def Let_def host_controls_shown_def sessionStorage_update
         split: option.splits variant.splits if_splits\<close>)
qed

lemma step_roomState_kept:
  assumes "roomState (fst s) \<noteq> None"
  shows "roomState (fst (fst (step v roomIdParam e s))) \<noteq> None"
  using assms
  by (cases s; cases e)
     (auto simp: initRoom_def onStorage_def hostTimer_def updateUIAndHostSync_def Let_def
        handleSeekEnd_def
        split: option.splits variant.splits if_splits prod.splits)


text \<open>
  How the three conditions come about. The ready flag is raised by the player's
  \<open>onReady\<close> only; a page without room state gets one only from an event that
  delivers one; and a listener's \<open>userInteracted\<close> is raised by the click on the join
  overlay only (the second version raises it in the initialising effect for a host).
\<close>

lemma step_ready_by_PlayerReady:
  assumes "\<not> isReady (fst s)" and "isReady (fst (fst (step v roomIdParam e s)))"
  shows "e = PlayerReady"
  using assms
  by (cases s; cases e)
     (auto simp: initRoom_def onStorage_def hostTimer_def updateUIAndHostSync_def Let_def
        handleSeekEnd_def
        split: option.splits variant.splits if_splits prod.splits)

lemma step_state_by_delivery:
  assumes "roomState (fst s) = None" and "roomState (fst (fst (step v roomIdParam e s))) \<noteq> None"
  shows "delivers_state e"
proof (cases e)
  case (StorageEvent key newValue)
  then show ?thesis
    using assms
    by (cases s; cases newValue)
       (auto simp: onStorage_def storage_handler_def split: option.splits if_splits)
qed (use assms in \<open>cases s; auto simp: hostTimer_def updateUIAndHostSync_def Let_def
       handleSeekEnd_def split: option.splits variant.splits if_splits prod.splits\<close>)+

lemma step_interaction_by_click:
  assumes "\<not> isHost (fst s)" and "sessionStorage (snd s) (''role_'' @ rid) \<noteq> Some ''host''"
    and "\<not> userInteracted (fst s)"
    and "userInteracted (fst (fst (step v (Some rid) e s)))"
  shows "e = ClickJoinSync"
proof (cases s)
  case (Pair c b)
  show ?thesis
  proof (cases e)
    case (Mount g)
    then show ?thesis
      using assms Pair joinRoom_isHost [of g rid b]
      by (auto simp: initRoom_def Let_def split: prod.splits if_splits)
  qed (use assms Pair in \<open>auto simp: onStorage_def hostTimer_def updateUIAndHostSync_def
         Let_def handleSeekEnd_def split: option.splits variant.splits if_splits prod.splits\<close>)
qed

text \<open>Sequences of events.\<close>

lemma run_Cons:
  "run v rp (e # es) s =
     (fst (run v rp es (fst (step v rp e s))),
      snd (step v rp e s) @ snd (run v rp es (fst (step v rp e s))))"
  by (simp add: Let_def case_prod_unfold)

lemma run_first_command_when_tracking:
  assumes "\<not> isHost (fst s)" and "sessionStorage (snd s) (''role_'' @ rid) \<noteq> Some ''host''"
    and "snd (run v (Some rid) evs s) \<noteq> []"
  shows "\<exists>es1 e es2. evs = es1 @ e # es2
     \<and> snd (run v (Some rid) es1 s) = []
     \<and> snd (step v (Some rid) e (fst (run v (Some rid) es1 s))) \<noteq> []
     \<and> \<not> isHost (fst (fst (run v (Some rid) es1 s)))
     \<and> isReady (fst (fst (run v (Some rid) es1 s)))
     \<and> roomState (fst (fst (run v (Some rid) es1 s))) \<noteq> None
     \<and> userInteracted (fst (fst (run v (Some rid) es1 s)))"
  using assms
proof (induction evs arbitrary: s)
  case Nil
  then show ?case by simp
next
  case (Cons e es)
  show ?case
  proof (cases "snd (step v (Some rid) e s) = []")
    case False
    with Cons.prems(1) have "isReady (fst s) \<and> roomState (fst s) \<noteq> None \<and> userInteracted (fst s)"
      by (simp add: step_commands_need_tracking)
    with False Cons.prems(1) have
      "e # es = [] @ e # es \<and> snd (run v (Some rid) [] s) = []
       \<and> snd (step v (Some rid) e (fst (run v (Some rid) [] s))) \<noteq> []
       \<and> \<not> isHost (fst (fst (run v (Some rid) [] s)))
       \<and> isReady (fst (fst (run v (Some rid) [] s)))
       \<and> roomState (fst (fst (run v (Some rid) [] s))) \<noteq> None
       \<and> userInteracted (fst (fst (run v (Some rid) [] s)))"
      by simp
    then show ?thesis by blast
  next
    case True
    let ?s1 = "fst (step v (Some rid) e s)"
    have inv: "\<not> isHost (fst ?s1)" "sessionStorage (snd ?s1) (''role_'' @ rid) \<noteq> Some ''host''"
      using step_keeps_listener [OF Cons.prems(1,2)] by simp_all
    have run_eq: "run v (Some rid) (e # es') s
        = (fst (run v (Some rid) es' ?s1), snd (run v (Some rid) es' ?s1))" for es'
      using True by (simp add: run_Cons del: run.simps)
    have "snd (run v (Some rid) es ?s1) \<noteq> []"
      using Cons.prems(3) by (simp add: run_eq del: run.simps)
    from Cons.IH [OF inv this] obtain es1 e' es2 where
      split: "es = es1 @ e' # es2" and
      rest: "snd (run v (Some rid) es1 ?s1) = []"
        "snd (step v (Some rid) e' (fst (run v (Some rid) es1 ?s1))) \<noteq> []"
        "\<not> isHost (fst (fst (run v (Some rid) es1 ?s1)))"
        "isReady (fst (fst (run v (Some rid) es1 ?s1)))"
        "roomState (fst (fst (run v (Some rid) es1 ?s1))) \<noteq> None"
        "userInteracted (fst (fst (run v (Some rid) es1 ?s1)))"
      by blast
    have "e # es = (e # es1) @ e' # es2" using split by simp
    moreover have "run v (Some rid) (e # es1) s = (fst (run v (Some rid) es1 ?s1), [])"
      using rest(1) by (simp add: run_eq del: run.simps)
    ultimately show ?thesis using rest by (metis fst_conv snd_conv)
  qed
qed

lemma run_roomState_kept:
  "roomState (fst s) \<noteq> None \<Longrightarrow> roomState (fst (fst (run v rp es s))) \<noteq> None"
proof (induction es arbitrary: s)
  case Nil
  then show ?case by simp
next
  case (Cons x xs)
  show ?case
    using Cons.IH [OF step_roomState_kept [OF Cons.prems, of v rp x]]
    by (simp add: run_Cons del: run.simps)
qed

lemma run_no_state_no_commands:
  assumes "roomState (fst (fst (run v rp evs s))) = None"
  shows "snd (run v rp evs s) = []"
  using assms
proof (induction evs arbitrary: s)
  case Nil
  then show ?case by simp
next
  case (Cons e es)
  let ?s1 = "fst (step v rp e s)"
  have final: "roomState (fst (fst (run v rp es ?s1))) = None"
    using Cons.prems by (simp add: run_Cons del: run.simps)
  have later: "snd (run v rp es ?s1) = []"
    using final by (rule Cons.IH)
  have "roomState (fst ?s1) = None"
    using run_roomState_kept [of ?s1 v rp es] final by blast
  then have "roomState (fst s) = None"
    using step_roomState_kept [of s v rp e] by blast
  then have "snd (step v rp e s) = []"
    by (rule step_no_state_no_commands)
  with later show ?case by (simp add: run_Cons del: run.simps)
qed


lemma run_ready_by_PlayerReady:
  assumes "\<not> isReady (fst s)" and "isReady (fst (fst (run v roomIdParam es s)))"
  shows "PlayerReady \<in> set es"
  using assms
proof (induction es arbitrary: s)
  case Nil
  then show ?case by simp
next
  case (Cons e es)
  show ?case
  proof (cases "isReady (fst (fst (step v roomIdParam e s)))")
    case True
    with Cons.prems(1) have "e = PlayerReady" by (rule step_ready_by_PlayerReady)
    then show ?thesis by simp
  next
    case False
    moreover have "isReady (fst (fst (run v roomIdParam es (fst (step v roomIdParam e s)))))"
      using Cons.prems(2) by (simp add: run_Cons del: run.simps)
    ultimately have "PlayerReady \<in> set es" by (rule Cons.IH)
    then show ?thesis by simp
  qed
qed

lemma run_state_by_delivery:
  assumes "roomState (fst s) = None" and "roomState (fst (fst (run v roomIdParam es s))) \<noteq> None"
  shows "\<exists>e. e \<in> set es \<and> delivers_state e"
  using assms
proof (induction es arbitrary: s)
  case Nil
  then show ?case by simp
next
  case (Cons e es)
  show ?case
  proof (cases "roomState (fst (fst (step v roomIdParam e s))) = None")
    case False
    with Cons.prems(1) have "delivers_state e" by (rule step_state_by_delivery)
    then show ?thesis by auto
  next
    case True
    moreover have "roomState (fst (fst (run v roomIdParam es (fst (step v roomIdParam e s))))) \<noteq> None"
      using Cons.prems(2) by (simp add: run_Cons del: run.simps)
    ultimately have "\<exists>e'. e' \<in> set es \<and> delivers_state e'" by (rule Cons.IH)
    then show ?thesis by auto
  qed
qed

lemma run_interaction_by_click:
  assumes "\<not> isHost (fst s)" and "sessionStorage (snd s) (''role_'' @ rid) \<noteq> Some ''host''"
    and "\<not> userInteracted (fst s)"
    and "userInteracted (fst (fst (run v (Some rid) es s)))"
  shows "ClickJoinSync \<in> set es"
  using assms
proof (induction es arbitrary: s)
  case Nil
  then show ?case by simp
next
  case (Cons e es)
  let ?s1 = "fst (step v (Some rid) e s)"
  show ?case
  proof (cases "userInteracted (fst ?s1)")
    case True
    with Cons.prems(1-3) have "e = ClickJoinSync" by (rule step_interaction_by_click)
    then show ?thesis by simp
  next
    case False
    have inv: "\<not> isHost (fst ?s1)" "sessionStorage (snd ?s1) (''role_'' @ rid) \<noteq> Some ''host''"
      using step_keeps_listener [OF Cons.prems(1,2)] by simp_all
    have "userInteracted (fst (fst (run v (Some rid) es ?s1)))"
      using Cons.prems(4) by (simp add: run_Cons del: run.simps)
    with inv False have "ClickJoinSync \<in> set es" by (intro Cons.IH)
    then show ?thesis by simp
  qed
qed

lemmas session_eval = room_init_def initRoom_def joinRoom_def getRoomState_def
       Let_def syncTick_def checkSync_def join_overlay_shown_def host_controls_shown_def render_def truthy_def
       MAX_DRIFT_def onStorage_def storage_handler_def hostTimer_def hostHeartbeat_def
       updateUIAndHostSync_def onStateChange_def not_found_message_def js_sub_def

text \<open>
  Claim C6. Take a session whose page is not host and whose session store does not bind
  it as host of the room, and any sequence of events. If a command is sent at all, the
  sequence splits at the event that sends the first one. Up to there no command was
  sent. In the state that event meets, the page is still a listener, the player is
  ready, a room state is cached and the user has interacted. And each of the three has
  come about by its own event among those before: if the player was not ready at the
  start, \<open>onReady\<close> has fired; if the page had no room state at the start, an event
  that delivers one has occurred; if the user had not interacted at the start, the user
  has clicked the join overlay. Last, while the page has no room state (after any
  events), no command has been sent.
\<close>

theorem listener_commands_only_when_tracking:
  assumes "\<not> isHost c0" and "sessionStorage b0 (''role_'' @ rid) \<noteq> Some ''host''"
  shows "(snd (run v (Some rid) evs (c0, b0)) \<noteq> [] \<longrightarrow>
            (\<exists>es1 e es2. evs = es1 @ e # es2
               \<and> snd (run v (Some rid) es1 (c0, b0)) = []
               \<and> snd (step v (Some rid) e (fst (run v (Some rid) es1 (c0, b0)))) \<noteq> []
               \<and> \<not> isHost (fst (fst (run v (Some rid) es1 (c0, b0))))
               \<and> isReady (fst (fst (run v (Some rid) es1 (c0, b0))))
               \<and> roomState (fst (fst (run v (Some rid) es1 (c0, b0)))) \<noteq> None
               \<and> userInteracted (fst (fst (run v (Some rid) es1 (c0, b0))))
               \<and> (\<not> isReady c0 \<longrightarrow> PlayerReady \<in> set es1)
               \<and> (roomState c0 = None \<longrightarrow> (\<exists>d. d \<in> set es1 \<and> delivers_state d))
               \<and> (\<not> userInteracted c0 \<longrightarrow> ClickJoinSync \<in> set es1)))
     \<and> (roomState (fst (fst (run v (Some rid) evs (c0, b0)))) = None \<longrightarrow>
            snd (run v (Some rid) evs (c0, b0)) = [])"
proof (intro conjI impI)
  assume sent: "snd (run v (Some rid) evs (c0, b0)) \<noteq> []"
  have start: "\<not> isHost (fst (c0, b0))"
      "sessionStorage (snd (c0, b0)) (''role_'' @ rid) \<noteq> Some ''host''"
    using assms by simp_all
  from run_first_command_when_tracking [OF start sent] obtain es1 e es2 where
    split: "evs = es1 @ e # es2" and
    quiet: "snd (run v (Some rid) es1 (c0, b0)) = []" and
    sends: "snd (step v (Some rid) e (fst (run v (Some rid) es1 (c0, b0)))) \<noteq> []" and
    listener: "\<not> isHost (fst (fst (run v (Some rid) es1 (c0, b0))))" and
    ready: "isReady (fst (fst (run v (Some rid) es1 (c0, b0))))" and
    cached: "roomState (fst (fst (run v (Some rid) es1 (c0, b0)))) \<noteq> None" and
    clicked: "userInteracted (fst (fst (run v (Some rid) es1 (c0, b0))))"
    by blast
  have by_ready: "\<not> isReady c0 \<longrightarrow> PlayerReady \<in> set es1"
    using run_ready_by_PlayerReady [of "(c0, b0)" v "Some rid" es1] ready by simp
  have by_delivery: "roomState c0 = None \<longrightarrow> (\<exists>d. d \<in> set es1 \<and> delivers_state d)"
    using run_state_by_delivery [of "(c0, b0)" v "Some rid" es1] cached by simp
  have by_click: "\<not> userInteracted c0 \<longrightarrow> ClickJoinSync \<in> set es1"
    using run_interaction_by_click [of "(c0, b0)" rid v es1] assms clicked by simp
  show "\<exists>es1 e es2. evs = es1 @ e # es2
               \<and> snd (run v (Some rid) es1 (c0, b0)) = []
               \<and> snd (step v (Some rid) e (fst (run v (Some rid) es1 (c0, b0)))) \<noteq> []
               \<and> \<not> isHost (fst (fst (run v (Some rid) es1 (c0, b0))))
               \<and> isReady (fst (fst (run v (Some rid) es1 (c0, b0))))
               \<and> roomState (fst (fst (run v (Some rid) es1 (c0, b0)))) \<noteq> None
               \<and> userInteracted (fst (fst (run v (Some rid) es1 (c0, b0))))
               \<and> (\<not> isReady c0 \<longrightarrow> PlayerReady \<in> set es1)
               \<and> (roomState c0 = None \<longrightarrow> (\<exists>d. d \<in> set es1 \<and> delivers_state d))
               \<and> (\<not> userInteracted c0 \<longrightarrow> ClickJoinSync \<in> set es1)"
    by (rule exI [of _ es1], rule exI [of _ e], rule exI [of _ es2])
       (intro conjI split quiet sends listener ready cached clicked by_ready by_delivery
          by_click)
next
  assume "roomState (fst (fst (run v (Some rid) evs (c0, b0)))) = None"
  then show "snd (run v (Some rid) evs (c0, b0)) = []"
    by (rule run_no_state_no_commands)
qed

text \<open>
  Runs of a fresh listener page in both versions: with the room joined and the player
  ready but no click, a tick sends nothing; after the click, the next tick seeks and
  plays.
\<close>

lemma listener_runs_first_version:
  "snd (run V1 (Some ''r1'') [Mount ''u1'', PlayerReady, SyncTick 4000 (Some 2) 0]
          (room_init, listener_browser)) = []
   \<and> snd (run V1 (Some ''r1'') [Mount ''u1'', PlayerReady, SyncTick 4000 (Some 2) 0,
             ClickJoinSync, SyncTick 5000 (Some 2) 0] (room_init, listener_browser))
       = [SeekTo (Finite 14), Play]"
  by (simp add: session_eval listener_browser_def playing_room_def double_table)

lemma listener_runs_second_version:
  "snd (run V2 (Some ''r1'') [Mount ''u1'', PlayerReady, SyncTick 4000 (Some 2) 0]
          (room_init, listener_browser)) = []
   \<and> snd (run V2 (Some ''r1'') [Mount ''u1'', PlayerReady, SyncTick 4000 (Some 2) 0,
             ClickJoinSync, SyncTick 5000 (Some 2) 0] (room_init, listener_browser))
       = [SeekTo (Finite 14), Play]
   \<and> snd (run V2 (Some ''r1'') [PlayerReady, ClickJoinSync, SyncTick 4000 (Some 2) 0]
          (room_init, listener_browser)) = []"
  by (simp add: session_eval listener_browser_def playing_room_def double_table)

theorem listener_commands_only_when_tracking_witness:
  "\<not> isHost room_init
   \<and> sessionStorage listener_browser (''role_'' @ ''r1'') \<noteq> Some ''host''
   \<and> snd (run V1 (Some ''r1'') [Mount ''u1'', PlayerReady, SyncTick 4000 (Some 2) 0]
          (room_init, listener_browser)) = []
   \<and> snd (run V1 (Some ''r1'') [Mount ''u1'', PlayerReady, SyncTick 4000 (Some 2) 0,
             ClickJoinSync, SyncTick 5000 (Some 2) 0] (room_init, listener_browser))
       = [SeekTo (Finite 14), Play]
   \<and> snd (run V2 (Some ''r1'') [Mount ''u1'', PlayerReady, SyncTick 4000 (Some 2) 0]
          (room_init, listener_browser)) = []
   \<and> snd (run V2 (Some ''r1'') [Mount ''u1'', PlayerReady, SyncTick 4000 (Some 2) 0,
             ClickJoinSync, SyncTick 5000 (Some 2) 0] (room_init, listener_browser))
       = [SeekTo (Finite 14), Play]
   \<and> (\<exists>es1 e es2.
         [Mount ''u1'', PlayerReady, SyncTick 4000 (Some 2) 0, ClickJoinSync,
          SyncTick 5000 (Some 2) 0] = es1 @ e # es2
         \<and> PlayerReady \<in> set es1 \<and> ClickJoinSync \<in> set es1
         \<and> (\<exists>d. d \<in> set es1 \<and> delivers_state d)
         \<and> snd (run V2 (Some ''r1'') es1 (room_init, listener_browser)) = [])"
proof -
  have start: "\<not> isHost room_init" "\<not> isReady room_init" "roomState room_init = None"
      "\<not> userInteracted room_init"
    by (simp_all add: room_init_def)
  have store: "sessionStorage listener_browser (''role_'' @ ''r1'') \<noteq> Some ''host''"
    by (simp add: listener_browser_def)
  have sent: "snd (run V2 (Some ''r1'') [Mount ''u1'', PlayerReady, SyncTick 4000 (Some 2) 0,
             ClickJoinSync, SyncTick 5000 (Some 2) 0] (room_init, listener_browser)) \<noteq> []"
    using listener_runs_second_version by simp
  have "\<exists>es1 e es2.
         [Mount ''u1'', PlayerReady, SyncTick 4000 (Some 2) 0, ClickJoinSync,
          SyncTick 5000 (Some 2) 0] = es1 @ e # es2
         \<and> PlayerReady \<in> set es1 \<and> ClickJoinSync \<in> set es1
         \<and> (\<exists>d. d \<in> set es1 \<and> delivers_state d)
         \<and> snd (run V2 (Some ''r1'') es1 (room_init, listener_browser)) = []"
    using listener_commands_only_when_tracking [OF start(1) store, of V2
        "[Mount ''u1'', PlayerReady, SyncTick 4000 (Some 2) 0, ClickJoinSync,
          SyncTick 5000 (Some 2) 0]"] sent start
    by blast
  then show ?thesis
    using start(1) store listener_runs_first_version listener_runs_second_version by simp
qed

text \<open>A failed join, and what the page does afterwards.\<close>

lemma joinRoom_absent:
  "getRoomState b rid = None \<Longrightarrow>
   joinRoom g rid b = (\<lparr>res_success = False, res_state = None, res_isHost = False\<rparr>, b)"
  by (simp add: joinRoom_def)

lemma step_after_failed_join:
  assumes "getRoomState (snd s) rid = None" and "rid \<noteq> []"
    and "roomState (fst s) = None" and "\<not> subscribed (fst s)" and "\<not> isHost (fst s)"
    and "error (fst s) = Some (not_found_message v)"
  shows "snd (fst (step v (Some rid) e s)) = snd s
     \<and> snd (step v (Some rid) e s) = []
     \<and> roomState (fst (fst (step v (Some rid) e s))) = None
     \<and> \<not> subscribed (fst (fst (step v (Some rid) e s)))
     \<and> \<not> isHost (fst (fst (step v (Some rid) e s)))
     \<and> error (fst (fst (step v (Some rid) e s))) = Some (not_found_message v)"
  using assms
  by (cases s; cases e)
     (auto simp: initRoom_def joinRoom_absent onStorage_def onStateChange_def hostTimer_def hostHeartbeat_def
        updateUIAndHostSync_def Let_def syncTick_def host_controls_shown_def
        join_overlay_shown_def render_def
        split: option.splits variant.splits if_splits)

lemma run_after_failed_join:
  assumes "getRoomState (snd s) rid = None" and "rid \<noteq> []"
    and "roomState (fst s) = None" and "\<not> subscribed (fst s)" and "\<not> isHost (fst s)"
    and "error (fst s) = Some (not_found_message v)"
  shows "snd (fst (run v (Some rid) evs s)) = snd s
     \<and> snd (run v (Some rid) evs s) = []
     \<and> roomState (fst (fst (run v (Some rid) evs s))) = None
     \<and> \<not> subscribed (fst (fst (run v (Some rid) evs s)))
     \<and> \<not> isHost (fst (fst (run v (Some rid) evs s)))
     \<and> error (fst (fst (run v (Some rid) evs s))) = Some (not_found_message v)"
  using assms
proof (induction evs arbitrary: s)
  case Nil
  then show ?case by simp
next
  case (Cons e es)
  note one = step_after_failed_join [OF Cons.prems, of e]
  have rest: "snd (fst (run v (Some rid) es (fst (step v (Some rid) e s)))) = snd (fst (step v (Some rid) e s))
     \<and> snd (run v (Some rid) es (fst (step v (Some rid) e s))) = []
     \<and> roomState (fst (fst (run v (Some rid) es (fst (step v (Some rid) e s))))) = None
     \<and> \<not> subscribed (fst (fst (run v (Some rid) es (fst (step v (Some rid) e s)))))
     \<and> \<not> isHost (fst (fst (run v (Some rid) es (fst (step v (Some rid) e s)))))
     \<and> error (fst (fst (run v (Some rid) es (fst (step v (Some rid) e s))))) = Some (not_found_message v)"
    using one Cons.prems(1,2) by (intro Cons.IH) simp_all
  show ?case
    using one rest by (simp add: run_Cons del: run.simps)
qed

text \<open>
  Claim C7. When nothing is stored for the room, \<open>joinRoom\<close> returns the failure
  result (no state, not host) and leaves both stores as they were. The initialising
  effect then sets the error message and returns before subscribing; it sets no timer
  and schedules no second call. Whatever happens to the page afterwards, the effect
  running again included: the stores stay as they were, so no room state is ever
  created; no player command is sent; the page has no room state, is not subscribed, and
  renders the error screen with the message.
\<close>

theorem join_missing_room_is_terminal_error:
  assumes "getRoomState b rid = None" and "rid \<noteq> []"
  shows "joinRoom g rid b = (\<lparr>res_success = False, res_state = None, res_isHost = False\<rparr>, b)
     \<and> step v (Some rid) (Mount g) (room_init, b)
         = ((room_init\<lparr>error := Some (not_found_message v)\<rparr>, b), [])
     \<and> snd (fst (run v (Some rid) (Mount g # evs) (room_init, b))) = b
     \<and> snd (run v (Some rid) (Mount g # evs) (room_init, b)) = []
     \<and> roomState (fst (fst (run v (Some rid) (Mount g # evs) (room_init, b)))) = None
     \<and> \<not> subscribed (fst (fst (run v (Some rid) (Mount g # evs) (room_init, b))))
     \<and> render (fst (fst (run v (Some rid) (Mount g # evs) (room_init, b))))
         = ErrorView (not_found_message v)"
proof -
  let ?failed = "room_init\<lparr>error := Some (not_found_message v)\<rparr>"
  have join: "joinRoom g rid b = (\<lparr>res_success = False, res_state = None, res_isHost = False\<rparr>, b)"
    using assms(1) by (rule joinRoom_absent)
  have mount: "step v (Some rid) (Mount g) (room_init, b) = ((?failed, b), [])"
    using assms(2) join by (simp add: initRoom_def)
  have start: "getRoomState (snd (?failed, b)) rid = None" "rid \<noteq> []"
      "roomState (fst (?failed, b)) = None" "\<not> subscribed (fst (?failed, b))"
      "\<not> isHost (fst (?failed, b))" "error (fst (?failed, b)) = Some (not_found_message v)"
    using assms by (simp_all add: room_init_def)
  note after = run_after_failed_join [OF start, of evs]
  have run_eq: "run v (Some rid) (Mount g # evs) (room_init, b) = run v (Some rid) evs (?failed, b)"
    using mount by (simp add: run_Cons del: run.simps)
  have msg: "not_found_message v \<noteq> []"
    by (cases v) (simp_all add: not_found_message_def)
  have "render (fst (fst (run v (Some rid) evs (?failed, b)))) = ErrorView (not_found_message v)"
    using after msg by (simp add: render_def truthy_def)
  with join mount after show ?thesis
    by (simp add: run_eq del: run.simps)
qed

theorem join_missing_room_is_terminal_error_witness:
  "getRoomState demo_browser ''zzz'' = None
   \<and> run V1 (Some ''zzz'')
        [Mount ''u1'', PlayerReady, StorageEvent (STORAGE_PREFIX @ ''zzz'') (Some demo_room),
         ClickJoinSync, SyncTick 4000 (Some 2) 0, HostTimer 4000 (Some 1) 3,
         ClickPlayPause 4000 3, Mount ''u2'']
        (room_init, demo_browser)
     = ((room_init\<lparr>error := Some ''Room not found. It may have expired or never existed.'',
                    isReady := True\<rparr>, demo_browser), [])"
proof -
  have h: "getRoomState demo_browser ''zzz'' = None"
    by (simp add: getRoomState_def demo_browser_def STORAGE_PREFIX_def)
  show ?thesis
    using h join_missing_room_is_terminal_error [OF h, of
        "''u1''" V1
        "[PlayerReady, StorageEvent (STORAGE_PREFIX @ ''zzz'') (Some demo_room),
          ClickJoinSync, SyncTick 4000 (Some 2) 0, HostTimer 4000 (Some 1) 3,
          ClickPlayPause 4000 3, Mount ''u2'']"]
    by (simp add: session_eval)
qed

end
